theory Spec2Isabelle
  imports Complex_Main "HOL-Library.Multiset" "HOL-Library.Option_ord"
begin

chapter \<open>Air-Aware: sensor ingest, queries and the client's view of the latest reading\<close>

text \<open>
  The backend (\<^verbatim>\<open>air-quality-backend/server.js\<close>) stores sensor readings in one
  collection and answers four routes; the browser client (the \<^verbatim>\<open>App\<close> component)
  keeps the last reading it saw and classifies its PM2.5 value. Numbers are modelled as
  reals, and page numbers and counts as integers (the idealisation of the doubles of the
  runtime); points in time are integers (milliseconds since the epoch).
\<close>

section \<open>The client: values received from the backend\<close>

text \<open>
  What arrives over the socket or as the body of a poll response is a parsed JSON value,
  or nothing at all. Objects are association lists, read at the first binding of a key.
\<close>

datatype jsval =
    JUndefined
  | JNull
  | JBool bool
  | JNum real
  | JStr string
  | JArr "jsval list"
  | JObj "(string \<times> jsval) list"

text \<open>Truthiness, as \<^verbatim>\<open>&&\<close> and \<^verbatim>\<open>||\<close> test it.\<close>

fun truthy :: "jsval \<Rightarrow> bool" where
  "truthy JUndefined = False"
| "truthy JNull = False"
| "truthy (JBool b) = b"
| "truthy (JNum n) = (n \<noteq> 0)"
| "truthy (JStr s) = (s \<noteq> [])"
| "truthy (JArr vs) = True"
| "truthy (JObj kvs) = True"

text \<open>
  \<^verbatim>\<open>v.k\<close> for a value \<open>v\<close> that is neither null nor undefined, and a key \<open>k\<close> that is
  none of the built-in properties of strings, numbers or arrays (the keys the client
  reads are the names of the sensor fields).
\<close>

fun prop_get :: "jsval \<Rightarrow> string \<Rightarrow> jsval" where
  "prop_get (JObj kvs) k = (case map_of kvs k of None \<Rightarrow> JUndefined | Some v \<Rightarrow> v)"
| "prop_get v k = JUndefined"

text \<open>\<^verbatim>\<open>v?.k\<close>: undefined when \<open>v\<close> is null or undefined.\<close>

fun opt_get :: "jsval \<Rightarrow> string \<Rightarrow> jsval" where
  "opt_get JUndefined k = JUndefined"
| "opt_get JNull k = JUndefined"
| "opt_get v k = prop_get v k"

text \<open>\<^verbatim>\<open>a || b\<close>.\<close>

definition js_or :: "jsval \<Rightarrow> jsval \<Rightarrow> jsval" where
  "js_or a b = (if truthy a then a else b)"

text \<open>
  A \<^verbatim>\<open>Date\<close> object. \<^verbatim>\<open>new Date(v)\<close> of a number is that time value (truncated,
  invalid beyond 8.64e15 ms), of null the epoch, of a boolean 0 or 1, of undefined the
  invalid date. For a string, array or object the time value is what the engine's date
  parser makes of its text: the model keeps the argument and does not evaluate it.
\<close>

datatype jsdate =
    TimeValue int
  | InvalidDate
  | DateOf jsval

definition time_clip :: "real \<Rightarrow> jsdate" where
  "time_clip n =
     (if \<bar>n\<bar> > 8640000000000000 then InvalidDate
      else TimeValue (if n \<ge> 0 then \<lfloor>n\<rfloor> else \<lceil>n\<rceil>))"

fun new_Date :: "jsval \<Rightarrow> jsdate" where
  "new_Date JUndefined = InvalidDate"
| "new_Date JNull = TimeValue 0"
| "new_Date (JBool b) = TimeValue (if b then 1 else 0)"
| "new_Date (JNum n) = time_clip n"
| "new_Date v = DateOf v"

section \<open>The client: the state of the App component\<close>

text \<open>The object held by \<^verbatim>\<open>currentLocation\<close>; \<open>c_voc\<close> is its field \<^verbatim>\<open>voc\<close>, and so on.\<close>

record current_location =
  c_latitude :: jsval
  c_longitude :: jsval
  c_temperature :: jsval
  c_humidity :: jsval
  c_voc :: jsval
  c_pm25 :: jsval
  c_pm10 :: jsval
  c_pm1 :: jsval
  c_rainfall :: jsval
  c_windSpeed :: jsval
  c_windDirection :: jsval

text \<open>The five \<^verbatim>\<open>useState\<close> cells of the component.\<close>

record app_state =
  currentLocation :: current_location
  isLoading :: bool
  error :: "string option"
  lastUpdate :: "jsdate option"
  connectionStatus :: string

definition initial_state :: app_state where
  "initial_state =
     \<lparr> currentLocation =
         \<lparr> c_latitude = JNum 6.791164, c_longitude = JNum 79.900497,
           c_temperature = JNum 0, c_humidity = JNum 0, c_voc = JNum 0,
           c_pm25 = JNum 0, c_pm10 = JNum 0, c_pm1 = JNum 0, c_rainfall = JNum 0,
           c_windSpeed = JNum 0, c_windDirection = JStr ''Unknown'' \<rparr>,
       isLoading = True,
       error = None,
       lastUpdate = None,
       connectionStatus = ''Disconnected'' \<rparr>"

text \<open>
  \<^verbatim>\<open>updateLocationData\<close>, called by the socket's \<^verbatim>\<open>sensor-data\<close> handler and by the
  poll (\<^verbatim>\<open>fetchLatestData\<close>): the two \<^verbatim>\<open>set...\<close> calls become the new state.
\<close>

definition updateLocationData :: "app_state \<Rightarrow> jsval \<Rightarrow> app_state" where
  "updateLocationData st data =
     (if truthy data \<and> prop_get data ''temperature'' \<noteq> JUndefined then
        st\<lparr> currentLocation :=
              \<lparr> c_latitude = js_or (opt_get (prop_get data ''location'') ''latitude'') (JNum 6.791164),
                c_longitude = js_or (opt_get (prop_get data ''location'') ''longitude'') (JNum 79.900497),
                c_temperature = js_or (prop_get data ''temperature'') (JNum 0),
                c_humidity = js_or (prop_get data ''humidity'') (JNum 0),
                c_voc = js_or (prop_get data ''vocIndex'') (JNum 0),
                c_pm25 = js_or (prop_get data ''pm25'') (JNum 0),
                c_pm10 = js_or (prop_get data ''pm10'') (JNum 0),
                c_pm1 = js_or (prop_get data ''pm1'') (JNum 0),
                c_rainfall = js_or (prop_get data ''rainfall'') (JNum 0),
                c_windSpeed = js_or (prop_get data ''windSpeed'') (JNum 0),
                c_windDirection = js_or (prop_get data ''windDirection'') (JStr ''Unknown'') \<rparr>,
            lastUpdate := Some (new_Date (prop_get data ''timestamp'')) \<rparr>
      else st)"

text \<open>
  The numeric value a relational operator sees in its operand: a finite number, an
  infinity, or NaN.
\<close>

datatype jsnum = NaN | NegInf | Fin real | PosInf

text \<open>\<^verbatim>\<open>x <= c\<close> for a finite literal \<open>c\<close>: false whenever \<open>x\<close> is NaN.\<close>

fun num_le :: "jsnum \<Rightarrow> real \<Rightarrow> bool" where
  "num_le NaN c = False"
| "num_le NegInf c = True"
| "num_le (Fin x) c = (x \<le> c)"
| "num_le PosInf c = False"

text \<open>\<^verbatim>\<open>x < y\<close> on numbers.\<close>

fun num_less :: "jsnum \<Rightarrow> jsnum \<Rightarrow> bool" where
  "num_less NaN y = False"
| "num_less x NaN = False"
| "num_less NegInf NegInf = False"
| "num_less NegInf y = True"
| "num_less (Fin x) (Fin y) = (x < y)"
| "num_less (Fin x) PosInf = True"
| "num_less (Fin x) NegInf = False"
| "num_less PosInf y = False"

text \<open>\<^verbatim>\<open>calculateAQI\<close>, on the numeric value of its argument.\<close>

definition calculateAQI :: "jsnum \<Rightarrow> string" where
  "calculateAQI pm25 =
     (if num_le pm25 12 then ''Good''
      else if num_le pm25 35.4 then ''Moderate''
      else if num_le pm25 55.4 then ''Unhealthy for Sensitive Groups''
      else if num_le pm25 150.4 then ''Unhealthy''
      else if num_le pm25 250.4 then ''Very Unhealthy''
      else ''Hazardous'')"

text \<open>The six labels, from the least to the most severe.\<close>

definition aqi_labels :: "string list" where
  "aqi_labels =
     [''Good'', ''Moderate'', ''Unhealthy for Sensitive Groups'', ''Unhealthy'',
      ''Very Unhealthy'', ''Hazardous'']"

fun index_of :: "'a \<Rightarrow> 'a list \<Rightarrow> nat" where
  "index_of x [] = 0"
| "index_of x (y # ys) = (if x = y then 0 else Suc (index_of x ys))"

definition severity :: "string \<Rightarrow> nat" where
  "severity l = index_of l aqi_labels"

section \<open>The backend: payloads, documents and the collection\<close>

text \<open>
  A schema path of a request body, as the schema's caster sees it: the key is absent
  (undefined), it is null, it holds a value that cannot be cast to the path's type, or it
  holds a value that casts to \<open>v\<close>.
\<close>

datatype 'a field = Absent | Null | Malformed | Given 'a

record location_payload =
  p_latitude :: "real field"
  p_longitude :: "real field"

text \<open>
  The body of \<^verbatim>\<open>POST /api/arduino\<close>, path by path. \<open>p_location\<close> is \<open>None\<close> when the body
  has no \<^verbatim>\<open>location\<close>, and the object's two paths otherwise. Keys outside the schema are
  dropped by the model constructor and are not represented.
\<close>

record payload =
  p_temperature :: "real field"
  p_humidity :: "real field"
  p_vocIndex :: "real field"
  p_vocRaw :: "real field"
  p_pm1 :: "real field"
  p_pm25 :: "real field"
  p_pm10 :: "real field"
  p_rainfall :: "real field"
  p_windSpeed :: "real field"
  p_windDirection :: "string field"
  p_location :: "location_payload option"
  p_timestamp :: "int field"

text \<open>
  A document of the collection. The three paths that are not required can hold null
  (\<open>None\<close>). The storage identity of a document is not modelled: the collection is the
  list of its documents in insertion order.
\<close>

record reading =
  temperature :: real
  humidity :: real
  vocIndex :: real
  vocRaw :: real
  pm1 :: real
  pm25 :: real
  pm10 :: real
  rainfall :: real
  windSpeed :: real
  windDirection :: string
  latitude :: "real option"
  longitude :: "real option"
  timestamp :: "int option"

datatype save_error = ValidationError | StoreUnavailable

text \<open>\<^verbatim>\<open>{ type: Number, required: true }\<close>: only a castable value passes.\<close>

fun required :: "'a field \<Rightarrow> save_error + 'a" where
  "required (Given v) = Inr v"
| "required f = Inl ValidationError"

text \<open>\<^verbatim>\<open>{ type: String, required: true }\<close>: the empty string does not pass either.\<close>

fun required_string :: "string field \<Rightarrow> save_error + string" where
  "required_string (Given s) = (if s = [] then Inl ValidationError else Inr s)"
| "required_string f = Inl ValidationError"

text \<open>
  \<^verbatim>\<open>{ type: T, default: d }\<close>: the default fills an absent path only; null stays null; a
  value that cannot be cast fails validation.
\<close>

fun with_default :: "'a \<Rightarrow> 'a field \<Rightarrow> save_error + 'a option" where
  "with_default d Absent = Inr (Some d)"
| "with_default d Null = Inr None"
| "with_default d Malformed = Inl ValidationError"
| "with_default d (Given v) = Inr (Some v)"

text \<open>The two paths of \<^verbatim>\<open>location\<close>; a body without \<^verbatim>\<open>location\<close> has neither.\<close>

definition location_path :: "(location_payload \<Rightarrow> real field) \<Rightarrow> location_payload option \<Rightarrow> real field" where
  "location_path sel loc = (case loc of None \<Rightarrow> Absent | Some l \<Rightarrow> sel l)"

text \<open>Sequencing of steps that can fail: the first error ends the run.\<close>

definition bind_sum :: "'e + 'a \<Rightarrow> ('a \<Rightarrow> 'e + 'b) \<Rightarrow> 'e + 'b" where
  "bind_sum m f = (case m of Inl e \<Rightarrow> Inl e | Inr v \<Rightarrow> f v)"

text \<open>
  \<^verbatim>\<open>sensorDataSchema\<close>: the document that \<^verbatim>\<open>new SensorData(body)\<close> builds at time \<open>now\<close>
  (\<^verbatim>\<open>Date.now\<close> is the default of \<^verbatim>\<open>timestamp\<close>), when it passes the validation that
  \<^verbatim>\<open>save()\<close> runs first.
\<close>

definition sensorDataSchema :: "int \<Rightarrow> payload \<Rightarrow> save_error + reading" where
  "sensorDataSchema now body =
     bind_sum (required (p_temperature body)) (\<lambda>te.
     bind_sum (required (p_humidity body)) (\<lambda>hu.
     bind_sum (required (p_vocIndex body)) (\<lambda>vi.
     bind_sum (required (p_vocRaw body)) (\<lambda>vr.
     bind_sum (required (p_pm1 body)) (\<lambda>p1.
     bind_sum (required (p_pm25 body)) (\<lambda>p25.
     bind_sum (required (p_pm10 body)) (\<lambda>p10.
     bind_sum (required (p_rainfall body)) (\<lambda>ra.
     bind_sum (required (p_windSpeed body)) (\<lambda>ws.
     bind_sum (required_string (p_windDirection body)) (\<lambda>wd.
     bind_sum (with_default 6.791164 (location_path p_latitude (p_location body))) (\<lambda>la.
     bind_sum (with_default 79.900497 (location_path p_longitude (p_location body))) (\<lambda>lo.
     bind_sum (with_default now (p_timestamp body)) (\<lambda>ts.
       Inr \<lparr> temperature = te, humidity = hu, vocIndex = vi, vocRaw = vr, pm1 = p1,
             pm25 = p25, pm10 = p10, rainfall = ra, windSpeed = ws, windDirection = wd,
             latitude = la, longitude = lo, timestamp = ts \<rparr>)))))))))))))"

text \<open>
  \<^verbatim>\<open>await sensorData.save()\<close> on the collection \<open>docs\<close>: validation, then the insert, which
  fails when the store cannot be reached (\<open>up\<close> is false). It returns the stored document
  and the collection after it.
\<close>

definition save :: "bool \<Rightarrow> int \<Rightarrow> payload \<Rightarrow> reading list \<Rightarrow> save_error + reading \<times> reading list" where
  "save up now body docs =
     bind_sum (sensorDataSchema now body) (\<lambda>doc.
       if up then Inr (doc, docs @ [doc]) else Inl StoreUnavailable)"

section \<open>The backend: the routes\<close>

text \<open>An error response: the status and the text of its \<^verbatim>\<open>error\<close> member.\<close>

datatype http_error = HttpError nat string

fun status :: "http_error \<Rightarrow> nat" where
  "status (HttpError c m) = c"

text \<open>
  What a run of the ingest route does, in order: the save completes, the document is
  emitted as \<^verbatim>\<open>sensor-data\<close> to every connected socket, the response is sent (an error,
  or the message of the success response).
\<close>

datatype event =
    Saved reading
  | Emitted reading
  | Replied "http_error + string"

text \<open>\<^verbatim>\<open>POST /api/arduino\<close>: the collection after the request and the events of the run.\<close>

definition post_api_arduino :: "bool \<Rightarrow> int \<Rightarrow> payload \<Rightarrow> reading list \<Rightarrow> reading list \<times> event list" where
  "post_api_arduino up now body docs =
     (case save up now body docs of
        Inl e \<Rightarrow> (docs, [Replied (Inl (HttpError 500 ''Failed to save sensor data''))])
      | Inr (doc, docs') \<Rightarrow>
          (docs', [Saved doc, Emitted doc, Replied (Inr ''Data saved successfully'')]))"


text \<open>
  Two such results: equal timestamps in reverse order of insertion, and in order of
  insertion. The query for the latest reading and the range query are written with the
  first; the paginated route, whose pages are separate queries, takes the sort of the
  store as a parameter.
\<close>

definition sort_desc :: "reading list \<Rightarrow> reading list" where
  "sort_desc docs = rev (sort_key timestamp docs)"


text \<open>\<^verbatim>\<open>SensorData.findOne().sort({ timestamp: -1 })\<close>.\<close>

definition latest :: "reading list \<Rightarrow> reading option" where
  "latest docs = (case sort_desc docs of [] \<Rightarrow> None | d # ds \<Rightarrow> Some d)"

text \<open>The default data of \<^verbatim>\<open>GET /api/latest\<close>, stamped with the time of the request.\<close>

definition default_data :: "int \<Rightarrow> reading" where
  "default_data now =
     \<lparr> temperature = 25.0, humidity = 60.0, vocIndex = 100, vocRaw = 25000, pm1 = 5,
       pm25 = 10, pm10 = 15, rainfall = 0.0, windSpeed = 2.5, windDirection = ''N'',
       latitude = Some 6.791164, longitude = Some 79.900497, timestamp = Some now \<rparr>"

text \<open>\<^verbatim>\<open>GET /api/latest\<close>.\<close>

definition get_api_latest :: "bool \<Rightarrow> int \<Rightarrow> reading list \<Rightarrow> http_error + reading" where
  "get_api_latest up now docs =
     (if \<not> up then Inl (HttpError 500 ''Failed to fetch sensor data'')
      else case latest docs of
             None \<Rightarrow> Inr (default_data now)
           | Some latestData \<Rightarrow> Inr latestData)"





text \<open>
  A bound of \<^verbatim>\<open>GET /api/data/range\<close>: the query parameter is absent or empty (falsy), or
  it is a text of which \<^verbatim>\<open>new Date\<close> makes an invalid date, or one of which it makes the
  point in time \<open>t\<close>.
\<close>

datatype bound = Missing | Unparsable | Instant int

text \<open>The filter \<^verbatim>\<open>{ timestamp: { $gte: s, $lte: e } }\<close>: a null timestamp never matches.\<close>

definition in_range :: "int \<Rightarrow> int \<Rightarrow> reading \<Rightarrow> bool" where
  "in_range s e d = (case timestamp d of None \<Rightarrow> False | Some t \<Rightarrow> s \<le> t \<and> t \<le> e)"

text \<open>
  \<^verbatim>\<open>GET /api/data/range\<close>. An invalid date in the filter makes the query throw when it is
  cast, which the handler's \<^verbatim>\<open>catch\<close> answers.
\<close>

definition get_api_data_range :: "bool \<Rightarrow> bound \<Rightarrow> bound \<Rightarrow> reading list \<Rightarrow> http_error + reading list" where
  "get_api_data_range up startDate endDate docs =
     (if startDate = Missing \<or> endDate = Missing then
        Inl (HttpError 400 ''Start date and end date are required'')
      else case (startDate, endDate) of
             (Instant s, Instant e) \<Rightarrow>
               if up then Inr (sort_desc (filter (in_range s e) docs))
               else Inl (HttpError 500 ''Failed to fetch sensor data'')
           | _ \<Rightarrow> Inl (HttpError 500 ''Failed to fetch sensor data''))"

section \<open>An example payload\<close>

text \<open>
  A complete device payload without location and timestamp, used to run the routes on
  concrete input.
\<close>

definition example_payload :: payload where
  "example_payload =
     \<lparr> p_temperature = Given 25.5, p_humidity = Given 60, p_vocIndex = Given 100,
       p_vocRaw = Given 25000, p_pm1 = Given 5, p_pm25 = Given 10, p_pm10 = Given 15,
       p_rainfall = Given 0, p_windSpeed = Given 2.5, p_windDirection = Given ''N'',
       p_location = None, p_timestamp = Absent \<rparr>"

text \<open>The document it becomes when it is received at time 1000.\<close>

definition example_stored :: reading where
  "example_stored =
     \<lparr> temperature = 25.5, humidity = 60, vocIndex = 100, vocRaw = 25000, pm1 = 5,
       pm25 = 10, pm10 = 15, rainfall = 0, windSpeed = 2.5, windDirection = ''N'',
       latitude = Some 6.791164, longitude = Some 79.900497, timestamp = Some 1000 \<rparr>"

section \<open>The client's view of the latest reading\<close>

text \<open>
  C10. A value that is null or undefined, or that has no defined \<^verbatim>\<open>temperature\<close>, is dropped:
  \<^verbatim>\<open>updateLocationData\<close> leaves the whole state of the component, the current view and the
  time of the last update included, as it was.
\<close>

theorem updateLocationData_drops_malformed:
  assumes "data = JUndefined \<or> data = JNull \<or> prop_get data ''temperature'' = JUndefined"
  shows "updateLocationData st data = st"
  using assms by (auto simp: updateLocationData_def)

theorem updateLocationData_drops_malformed_witness:
  "updateLocationData initial_state JNull = initial_state
   \<and> updateLocationData initial_state (JObj [(''humidity'', JNum 61), (''timestamp'', JNum 100)])
       = initial_state"
  using updateLocationData_drops_malformed [of JNull initial_state]
    updateLocationData_drops_malformed
      [of "JObj [(''humidity'', JNum 61), (''timestamp'', JNum 100)]" initial_state]
  by simp

text \<open>
  C7. The merge is idempotent: applying the same incoming value twice in succession gives
  the state that applying it once gives.
\<close>

theorem updateLocationData_idempotent:
  "updateLocationData (updateLocationData st r) r = updateLocationData st r"
  by (simp add: updateLocationData_def)

theorem updateLocationData_idempotent_witness:
  "updateLocationData
     (updateLocationData initial_state (JObj [(''temperature'', JNum 30), (''timestamp'', JNum 200)]))
     (JObj [(''temperature'', JNum 30), (''timestamp'', JNum 200)])
   = updateLocationData initial_state (JObj [(''temperature'', JNum 30), (''timestamp'', JNum 200)])"
  using updateLocationData_idempotent
    [of initial_state "JObj [(''temperature'', JNum 30), (''timestamp'', JNum 200)]"]
  by simp

text \<open>
  C1, as stated, fails: a view that holds the reading of time 200 and then receives the
  reading of time 100 shows the reading of time 100 (its temperature, and its time as the
  last update).
\<close>

theorem updateLocationData_regresses:
  "lastUpdate (updateLocationData initial_state
       (JObj [(''temperature'', JNum 30), (''timestamp'', JNum 200)])) = Some (TimeValue 200)
   \<and> lastUpdate (updateLocationData
         (updateLocationData initial_state
            (JObj [(''temperature'', JNum 30), (''timestamp'', JNum 200)]))
         (JObj [(''temperature'', JNum 20), (''timestamp'', JNum 100)])) = Some (TimeValue 100)
   \<and> c_temperature (currentLocation (updateLocationData
         (updateLocationData initial_state
            (JObj [(''temperature'', JNum 30), (''timestamp'', JNum 200)]))
         (JObj [(''temperature'', JNum 20), (''timestamp'', JNum 100)]))) = JNum 20"
  by (simp add: updateLocationData_def initial_state_def js_or_def time_clip_def)

text \<open>
  C1, amended. The merge compares no timestamps; the last value applied wins. For every
  state and every incoming value that is truthy and has a defined \<^verbatim>\<open>temperature\<close>, each
  of the eleven fields of the view after the merge is the incoming value's field, or the
  default of that field (the site coordinate, 0, \<^verbatim>\<open>Unknown\<close>) where the incoming field is
  falsy; the last update is the date of the incoming value's timestamp; none of this
  depends on what the state held before; and the loading flag, the error and the
  connection status are as they were.
\<close>

theorem updateLocationData_last_applied_wins:
  assumes "truthy data" and "prop_get data ''temperature'' \<noteq> JUndefined"
  shows "c_latitude (currentLocation (updateLocationData st data))
        = js_or (opt_get (prop_get data ''location'') ''latitude'') (JNum 6.791164)
    \<and> c_longitude (currentLocation (updateLocationData st data))
        = js_or (opt_get (prop_get data ''location'') ''longitude'') (JNum 79.900497)
    \<and> c_temperature (currentLocation (updateLocationData st data))
        = js_or (prop_get data ''temperature'') (JNum 0)
    \<and> c_humidity (currentLocation (updateLocationData st data))
        = js_or (prop_get data ''humidity'') (JNum 0)
    \<and> c_voc (currentLocation (updateLocationData st data))
        = js_or (prop_get data ''vocIndex'') (JNum 0)
    \<and> c_pm25 (currentLocation (updateLocationData st data))
        = js_or (prop_get data ''pm25'') (JNum 0)
    \<and> c_pm10 (currentLocation (updateLocationData st data))
        = js_or (prop_get data ''pm10'') (JNum 0)
    \<and> c_pm1 (currentLocation (updateLocationData st data))
        = js_or (prop_get data ''pm1'') (JNum 0)
    \<and> c_rainfall (currentLocation (updateLocationData st data))
        = js_or (prop_get data ''rainfall'') (JNum 0)
    \<and> c_windSpeed (currentLocation (updateLocationData st data))
        = js_or (prop_get data ''windSpeed'') (JNum 0)
    \<and> c_windDirection (currentLocation (updateLocationData st data))
        = js_or (prop_get data ''windDirection'') (JStr ''Unknown'')
    \<and> lastUpdate (updateLocationData st data) = Some (new_Date (prop_get data ''timestamp''))
    \<and> currentLocation (updateLocationData st data) = currentLocation (updateLocationData st' data)
    \<and> lastUpdate (updateLocationData st data) = lastUpdate (updateLocationData st' data)
    \<and> isLoading (updateLocationData st data) = isLoading st
    \<and> error (updateLocationData st data) = error st
    \<and> connectionStatus (updateLocationData st data) = connectionStatus st"
  using assms by (simp add: updateLocationData_def)

theorem updateLocationData_last_applied_wins_witness:
  "truthy (JObj [(''temperature'', JNum 20), (''humidity'', JNum 0), (''pm25'', JNum 8),
                 (''windDirection'', JStr []), (''timestamp'', JNum 100)])
   \<and> lastUpdate (updateLocationData
         (updateLocationData initial_state
            (JObj [(''temperature'', JNum 30), (''timestamp'', JNum 200)]))
         (JObj [(''temperature'', JNum 20), (''humidity'', JNum 0), (''pm25'', JNum 8),
                (''windDirection'', JStr []), (''timestamp'', JNum 100)]))
       = Some (TimeValue 100)
   \<and> currentLocation (updateLocationData
         (updateLocationData initial_state
            (JObj [(''temperature'', JNum 30), (''timestamp'', JNum 200)]))
         (JObj [(''temperature'', JNum 20), (''humidity'', JNum 0), (''pm25'', JNum 8),
                (''windDirection'', JStr []), (''timestamp'', JNum 100)]))
       = \<lparr> c_latitude = JNum 6.791164, c_longitude = JNum 79.900497,
           c_temperature = JNum 20, c_humidity = JNum 0, c_voc = JNum 0,
           c_pm25 = JNum 8, c_pm10 = JNum 0, c_pm1 = JNum 0, c_rainfall = JNum 0,
           c_windSpeed = JNum 0, c_windDirection = JStr ''Unknown'' \<rparr>"
proof -
  let ?r = "JObj [(''temperature'', JNum 20), (''humidity'', JNum 0), (''pm25'', JNum 8),
                  (''windDirection'', JStr []), (''timestamp'', JNum 100)]"
  let ?st = "updateLocationData initial_state
               (JObj [(''temperature'', JNum 30), (''timestamp'', JNum 200)])"
  let ?c = "currentLocation (updateLocationData ?st ?r)"
  have t: "truthy ?r" by simp
  have d: "prop_get ?r ''temperature'' \<noteq> JUndefined" by simp
  note w = updateLocationData_last_applied_wins [OF t d, of ?st ?st]
  have fields: "c_latitude ?c = JNum 6.791164" "c_longitude ?c = JNum 79.900497"
    "c_temperature ?c = JNum 20" "c_humidity ?c = JNum 0" "c_voc ?c = JNum 0"
    "c_pm25 ?c = JNum 8" "c_pm10 ?c = JNum 0" "c_pm1 ?c = JNum 0" "c_rainfall ?c = JNum 0"
    "c_windSpeed ?c = JNum 0" "c_windDirection ?c = JStr ''Unknown''"
    using w by (simp_all add: js_or_def)
  have upd: "lastUpdate (updateLocationData ?st ?r) = Some (TimeValue 100)"
    using w by (simp add: time_clip_def)
  have "?c = \<lparr> c_latitude = JNum 6.791164, c_longitude = JNum 79.900497,
           c_temperature = JNum 20, c_humidity = JNum 0, c_voc = JNum 0,
           c_pm25 = JNum 8, c_pm10 = JNum 0, c_pm1 = JNum 0, c_rainfall = JNum 0,
           c_windSpeed = JNum 0, c_windDirection = JStr ''Unknown'' \<rparr>"
    using fields by (cases ?c) simp
  with t upd show ?thesis by blast
qed

section \<open>The air-quality label\<close>

text \<open>
  C9. \<^verbatim>\<open>calculateAQI\<close> returns one of the six labels for every numeric value (NaN and the
  infinities included); which one follows from the thresholds 12, 35.4, 55.4, 150.4 and
  250.4; and a larger value never gets a less severe label.
\<close>

theorem calculateAQI_total_monotone:
  "calculateAQI x \<in> set aqi_labels
   \<and> distinct aqi_labels
   \<and> (calculateAQI (Fin v) = ''Good'' \<longleftrightarrow> v \<le> 12)
   \<and> (calculateAQI (Fin v) = ''Moderate'' \<longleftrightarrow> 12 < v \<and> v \<le> 35.4)
   \<and> (calculateAQI (Fin v) = ''Unhealthy for Sensitive Groups'' \<longleftrightarrow> 35.4 < v \<and> v \<le> 55.4)
   \<and> (calculateAQI (Fin v) = ''Unhealthy'' \<longleftrightarrow> 55.4 < v \<and> v \<le> 150.4)
   \<and> (calculateAQI (Fin v) = ''Very Unhealthy'' \<longleftrightarrow> 150.4 < v \<and> v \<le> 250.4)
   \<and> (calculateAQI (Fin v) = ''Hazardous'' \<longleftrightarrow> 250.4 < v)
   \<and> (num_less x y \<longrightarrow> severity (calculateAQI x) \<le> severity (calculateAQI y))"
proof -
  have total: "calculateAQI x \<in> set aqi_labels"
    by (simp add: calculateAQI_def aqi_labels_def)
  have dist: "distinct aqi_labels"
    by (simp add: aqi_labels_def)
  have bands:
    "(calculateAQI (Fin v) = ''Good'' \<longleftrightarrow> v \<le> 12)
     \<and> (calculateAQI (Fin v) = ''Moderate'' \<longleftrightarrow> 12 < v \<and> v \<le> 35.4)
     \<and> (calculateAQI (Fin v) = ''Unhealthy for Sensitive Groups'' \<longleftrightarrow> 35.4 < v \<and> v \<le> 55.4)
     \<and> (calculateAQI (Fin v) = ''Unhealthy'' \<longleftrightarrow> 55.4 < v \<and> v \<le> 150.4)
     \<and> (calculateAQI (Fin v) = ''Very Unhealthy'' \<longleftrightarrow> 150.4 < v \<and> v \<le> 250.4)
     \<and> (calculateAQI (Fin v) = ''Hazardous'' \<longleftrightarrow> 250.4 < v)"
    by (auto simp: calculateAQI_def)
  have mono: "num_less x y \<longrightarrow> severity (calculateAQI x) \<le> severity (calculateAQI y)"
    by (cases x; cases y) (auto simp: calculateAQI_def severity_def aqi_labels_def)
  from total dist bands mono show ?thesis by blast
qed

theorem calculateAQI_total_monotone_witness:
  "calculateAQI (Fin 10) = ''Good''
   \<and> calculateAQI (Fin 40) = ''Unhealthy for Sensitive Groups''
   \<and> num_less (Fin 10) (Fin 40)
   \<and> severity (calculateAQI (Fin 10)) \<le> severity (calculateAQI (Fin 40))"
proof -
  have good: "calculateAQI (Fin 10) = ''Good''"
    using calculateAQI_total_monotone [of "Fin 10" 10 "Fin 40"] by simp
  have sens: "calculateAQI (Fin 40) = ''Unhealthy for Sensitive Groups''"
    using calculateAQI_total_monotone [of "Fin 10" 40 "Fin 40"] by simp
  have less: "num_less (Fin 10) (Fin 40)"
    by simp
  have "severity (calculateAQI (Fin 10)) \<le> severity (calculateAQI (Fin 40))"
    using calculateAQI_total_monotone [of "Fin 10" 10 "Fin 40"] less by blast
  with good sens less show ?thesis by blast
qed

section \<open>Validation of a payload\<close>

lemma bind_sum_Inr: "bind_sum m f = Inr r \<longleftrightarrow> (\<exists>v. m = Inr v \<and> f v = Inr r)"
  by (cases m) (simp_all add: bind_sum_def)

lemma bind_sum_Inl_iff:
  "bind_sum m f = Inl e \<longleftrightarrow> m = Inl e \<or> (\<exists>v. m = Inr v \<and> f v = Inl e)"
  by (cases m) (simp_all add: bind_sum_def)

lemma required_Inr: "required f = Inr v \<longleftrightarrow> f = Given v"
  by (cases f) auto



lemma required_Inl: "required f = Inl e \<Longrightarrow> e = ValidationError"
  by (cases f) auto

lemma required_string_Inl: "required_string f = Inl e \<Longrightarrow> e = ValidationError"
  by (cases f) (auto split: if_splits)

lemma with_default_Inl: "with_default d f = Inl e \<Longrightarrow> e = ValidationError"
  by (cases f) auto

lemma schema_error: "sensorDataSchema now body = Inl e \<Longrightarrow> e = ValidationError"
  by (auto simp: sensorDataSchema_def bind_sum_Inl_iff
      dest: required_Inl required_string_Inl with_default_Inl)

lemma schema_rejects_missing:
  assumes "p_temperature body = Absent \<or> p_humidity body = Absent \<or> p_vocIndex body = Absent
    \<or> p_vocRaw body = Absent \<or> p_pm1 body = Absent \<or> p_pm25 body = Absent
    \<or> p_pm10 body = Absent \<or> p_rainfall body = Absent \<or> p_windSpeed body = Absent"
  shows "sensorDataSchema now body = Inl ValidationError"
proof (cases "sensorDataSchema now body")
  case (Inl e)
  then show ?thesis using schema_error by blast
next
  case (Inr r)
  with assms show ?thesis
    by (auto simp: sensorDataSchema_def bind_sum_Inr required_Inr)
qed

lemma example_payload_saved:
  "save True 1000 example_payload [] = Inr (example_stored, [example_stored])"
  by (simp add: save_def sensorDataSchema_def bind_sum_def example_payload_def
      example_stored_def location_path_def)

section \<open>The ingest route\<close>

text \<open>
  C2. A payload that lacks one of the nine required numbers is rejected as a whole: the
  route answers with an error, the collection (and so its count) is what it was, and
  nothing is emitted to the connected sockets.
\<close>

theorem rejected_ingest_atomic:
  assumes "p_temperature body = Absent \<or> p_humidity body = Absent \<or> p_vocIndex body = Absent
    \<or> p_vocRaw body = Absent \<or> p_pm1 body = Absent \<or> p_pm25 body = Absent
    \<or> p_pm10 body = Absent \<or> p_rainfall body = Absent \<or> p_windSpeed body = Absent"
  shows "post_api_arduino up now body docs
           = (docs, [Replied (Inl (HttpError 500 ''Failed to save sensor data''))])
    \<and> fst (post_api_arduino up now body docs) = docs
    \<and> length (fst (post_api_arduino up now body docs)) = length docs
    \<and> (\<forall>d. Emitted d \<notin> set (snd (post_api_arduino up now body docs)))
    \<and> (\<exists>e. Replied (Inl e) \<in> set (snd (post_api_arduino up now body docs)))"
proof -
  have "save up now body docs = Inl ValidationError"
    using schema_rejects_missing [OF assms] by (simp add: save_def bind_sum_def)
  then show ?thesis
    by (simp add: post_api_arduino_def)
qed

theorem rejected_ingest_atomic_witness:
  "p_humidity (example_payload\<lparr>p_humidity := Absent\<rparr>) = Absent
   \<and> post_api_arduino True 1000 (example_payload\<lparr>p_humidity := Absent\<rparr>) [default_data 0]
       = ([default_data 0], [Replied (Inl (HttpError 500 ''Failed to save sensor data''))])"
proof -
  have h: "p_humidity (example_payload\<lparr>p_humidity := Absent\<rparr>) = Absent"
    by simp
  then show ?thesis
    using rejected_ingest_atomic
      [of "example_payload\<lparr>p_humidity := Absent\<rparr>" True 1000 "[default_data 0]"]
    by blast
qed

lemma post_api_arduino_cases:
  "(\<exists>doc. post_api_arduino up now body docs
            = (docs @ [doc], [Saved doc, Emitted doc, Replied (Inr ''Data saved successfully'')])
          \<and> save up now body docs = Inr (doc, docs @ [doc]))
   \<or> post_api_arduino up now body docs
        = (docs, [Replied (Inl (HttpError 500 ''Failed to save sensor data''))])"
  by (cases "sensorDataSchema now body")
     (auto simp: post_api_arduino_def save_def bind_sum_def)

text \<open>
  C3. In every run of the ingest route, whatever the payload and whether or not the store
  can be reached: an emission of a document comes after the completed save of that same
  document, which is then the last document of the collection; and the success response
  comes after both.
\<close>

theorem broadcast_only_after_save:
  assumes "post_api_arduino up now body docs = (docs', evs)"
  shows "(\<forall>pre d post. evs = pre @ Emitted d # post \<longrightarrow>
            Saved d \<in> set pre \<and> docs' = docs @ [d] \<and> save up now body docs = Inr (d, docs'))
    \<and> (\<forall>pre m post. evs = pre @ Replied (Inr m) # post \<longrightarrow>
            (\<exists>d. Saved d \<in> set pre \<and> Emitted d \<in> set pre \<and> docs' = docs @ [d]))"
  using post_api_arduino_cases [of up now body docs] assms
  by (auto simp: Cons_eq_append_conv)

theorem broadcast_only_after_save_witness:
  "post_api_arduino True 1000 example_payload []
     = ([example_stored],
        [Saved example_stored, Emitted example_stored, Replied (Inr ''Data saved successfully'')])
   \<and> Saved example_stored \<in> set [Saved example_stored]
   \<and> save True 1000 example_payload [] = Inr (example_stored, [example_stored])"
proof -
  have run: "post_api_arduino True 1000 example_payload []
     = ([example_stored],
        [Saved example_stored] @ Emitted example_stored
          # [Replied (Inr ''Data saved successfully'')])"
    using example_payload_saved by (simp add: post_api_arduino_def)
  from broadcast_only_after_save [OF run]
  have "Saved example_stored \<in> set [Saved example_stored]
      \<and> [example_stored] = [] @ [example_stored]
      \<and> save True 1000 example_payload [] = Inr (example_stored, [example_stored])"
    by blast
  with run show ?thesis by simp
qed



section \<open>Sorting by timestamp\<close>

lemma mset_sort_desc: "mset (sort_desc docs) = mset docs"
  by (simp add: sort_desc_def)

lemma set_sort_desc: "set (sort_desc docs) = set docs"
  by (simp add: sort_desc_def)

lemma length_sort_desc: "length (sort_desc docs) = length docs"
  by (simp add: sort_desc_def)

lemma sorted_sort_desc: "sorted_wrt (\<lambda>a b. timestamp b \<le> timestamp a) (sort_desc docs)"
proof -
  have "sorted (map timestamp (sort_key timestamp docs))"
    by (rule sorted_sort_key)
  then have "sorted_wrt (\<lambda>a b. timestamp a \<le> timestamp b) (sort_key timestamp docs)"
    by (simp add: sorted_wrt_map)
  then show ?thesis
    by (simp add: sort_desc_def sorted_wrt_rev)
qed

lemma latest_max:
  assumes "docs \<noteq> []"
  shows "\<exists>d. latest docs = Some d \<and> d \<in> set docs \<and> (\<forall>e\<in>set docs. timestamp e \<le> timestamp d)"
proof -
  from assms have "sort_desc docs \<noteq> []"
    using length_sort_desc [of docs] by auto
  then obtain d ds where ds: "sort_desc docs = d # ds"
    by (cases "sort_desc docs") auto
  have "d \<in> set docs"
    using set_sort_desc [of docs] ds by auto
  moreover have "\<forall>e\<in>set docs. timestamp e \<le> timestamp d"
    using sorted_sort_desc [of docs] set_sort_desc [of docs] ds by auto
  moreover have "latest docs = Some d"
    by (simp add: latest_def ds)
  ultimately show ?thesis by blast
qed

section \<open>The latest reading\<close>

text \<open>
  C4. On a collection that is not empty, the query for the latest reading returns a stored
  document whose timestamp is the greatest, and the route answers with it. On the empty
  collection the query returns nothing, and the route answers with the default data:
  25.0 degrees, 60.0 percent, the site coordinate, stamped with the time of the request.
\<close>

theorem latest_reading_maximal:
  "latest [] = None
   \<and> get_api_latest True now [] =
       Inr \<lparr> temperature = 25.0, humidity = 60.0, vocIndex = 100, vocRaw = 25000, pm1 = 5,
             pm25 = 10, pm10 = 15, rainfall = 0.0, windSpeed = 2.5, windDirection = ''N'',
             latitude = Some 6.791164, longitude = Some 79.900497, timestamp = Some now \<rparr>
   \<and> (docs \<noteq> [] \<longrightarrow>
        (\<exists>d. latest docs = Some d \<and> get_api_latest True now docs = Inr d
           \<and> d \<in> set docs \<and> (\<forall>e\<in>set docs. timestamp e \<le> timestamp d)))"
proof -
  have empty: "latest [] = None"
    by (simp add: latest_def sort_desc_def)
  then have dflt: "get_api_latest True now [] = Inr (default_data now)"
    by (simp add: get_api_latest_def)
  have "\<exists>d. latest docs = Some d \<and> get_api_latest True now docs = Inr d
           \<and> d \<in> set docs \<and> (\<forall>e\<in>set docs. timestamp e \<le> timestamp d)" if "docs \<noteq> []"
    using latest_max [OF that] by (auto simp: get_api_latest_def)
  with empty dflt show ?thesis
    by (simp add: default_data_def)
qed

theorem latest_reading_maximal_witness:
  "latest [default_data 5, default_data 9, default_data 7] = Some (default_data 9)
   \<and> get_api_latest True 0 [default_data 5, default_data 9, default_data 7]
       = Inr (default_data 9)"
proof -
  let ?docs = "[default_data 5, default_data 9, default_data 7]"
  obtain d where d: "latest ?docs = Some d" "get_api_latest True 0 ?docs = Inr d"
    "d \<in> set ?docs" "\<forall>e\<in>set ?docs. timestamp e \<le> timestamp d"
    using latest_reading_maximal [of 0 ?docs] by auto
  from d(4) have "timestamp (default_data 9) \<le> timestamp d" by simp
  with d(3) have "d = default_data 9" by (auto simp: default_data_def)
  with d show ?thesis by simp
qed

section \<open>The range query\<close>

text \<open>
  C5, as stated, fails: with a start that parses and an end that is present but is no
  date, the route answers 500, not a 400-class validation error.
\<close>

theorem range_unparsable_bound_is_500:
  "get_api_data_range True (Instant 0) Unparsable [default_data 5]
     = Inl (HttpError 500 ''Failed to fetch sensor data'')
   \<and> status (HttpError 500 ''Failed to fetch sensor data'') \<noteq> 400"
  by (simp add: get_api_data_range_def)

text \<open>
  C5, amended. The route answers 400 whenever a bound is absent (or empty). When both
  bounds are present and parse, and the store can be reached, it returns exactly the
  stored readings whose timestamp lies between them (each as often as it is stored), in
  descending order of timestamp. When both are present and one does not parse, it answers
  500.
\<close>

theorem range_query_bounds:
  "(startDate = Missing \<or> endDate = Missing \<longrightarrow>
      get_api_data_range up startDate endDate docs
        = Inl (HttpError 400 ''Start date and end date are required''))
   \<and> (\<exists>rs. get_api_data_range True (Instant s) (Instant e) docs = Inr rs
         \<and> mset rs = {# d \<in># mset docs. \<exists>t. timestamp d = Some t \<and> s \<le> t \<and> t \<le> e #}
         \<and> sorted_wrt (\<lambda>a b. timestamp b \<le> timestamp a) rs)
   \<and> (startDate \<noteq> Missing \<and> endDate \<noteq> Missing
        \<and> (startDate = Unparsable \<or> endDate = Unparsable) \<longrightarrow>
        get_api_data_range up startDate endDate docs
          = Inl (HttpError 500 ''Failed to fetch sensor data''))"
proof -
  have inr: "in_range s e = (\<lambda>d. \<exists>t. timestamp d = Some t \<and> s \<le> t \<and> t \<le> e)"
    by (auto simp: in_range_def fun_eq_iff split: option.splits)
  have "mset (sort_desc (filter (in_range s e) docs))
          = {# d \<in># mset docs. \<exists>t. timestamp d = Some t \<and> s \<le> t \<and> t \<le> e #}"
    by (simp add: mset_sort_desc inr)
  then have ok: "\<exists>rs. get_api_data_range True (Instant s) (Instant e) docs = Inr rs
         \<and> mset rs = {# d \<in># mset docs. \<exists>t. timestamp d = Some t \<and> s \<le> t \<and> t \<le> e #}
         \<and> sorted_wrt (\<lambda>a b. timestamp b \<le> timestamp a) rs"
    by (simp add: get_api_data_range_def sorted_sort_desc)
  have bad: "get_api_data_range up startDate endDate docs
          = Inl (HttpError 500 ''Failed to fetch sensor data'')"
    if "startDate \<noteq> Missing \<and> endDate \<noteq> Missing
        \<and> (startDate = Unparsable \<or> endDate = Unparsable)"
    using that by (cases startDate; cases endDate) (auto simp: get_api_data_range_def)
  have miss: "get_api_data_range up startDate endDate docs
        = Inl (HttpError 400 ''Start date and end date are required'')"
    if "startDate = Missing \<or> endDate = Missing"
    using that by (auto simp: get_api_data_range_def)
  from ok bad miss show ?thesis by blast
qed

theorem range_query_bounds_witness:
  "get_api_data_range True Missing (Instant 9) [default_data 5, default_data 9, default_data 7]
     = Inl (HttpError 400 ''Start date and end date are required'')
   \<and> get_api_data_range True (Instant 6) Unparsable [default_data 5]
     = Inl (HttpError 500 ''Failed to fetch sensor data'')
   \<and> get_api_data_range True (Instant 6) (Instant 9)
       [default_data 5, default_data 9, default_data 7]
     = Inr [default_data 9, default_data 7]"
proof -
  let ?docs = "[default_data 5, default_data 9, default_data 7]"
  have a: "get_api_data_range True Missing (Instant 9) ?docs
     = Inl (HttpError 400 ''Start date and end date are required'')"
    using range_query_bounds [of Missing "Instant 9" True ?docs] by simp
  have b: "get_api_data_range True (Instant 6) Unparsable [default_data 5]
     = Inl (HttpError 500 ''Failed to fetch sensor data'')"
    using range_query_bounds [of "Instant 6" Unparsable True "[default_data 5]"] by simp
  have c: "get_api_data_range True (Instant 6) (Instant 9) ?docs
     = Inr [default_data 9, default_data 7]"
    by (simp add: get_api_data_range_def in_range_def default_data_def sort_desc_def)
  from a b c show ?thesis by blast
qed

section \<open>The paginated query\<close>














end
